theory Spec2Isabelle
  imports Main "HOL-Library.AList"
begin

section \<open>Configuration values\<close>

text \<open>
  \<^verbatim>\<open>config.py\<close> works on what \<^verbatim>\<open>yaml.safe_load\<close> returns: \<^verbatim>\<open>None\<close>, booleans, integers,
  strings, lists and dictionaries. A dictionary is an association list in insertion order;
  a Python dictionary never holds a key twice, which is the predicate \<open>unique_keys\<close>.
  Mapping keys are strings, as in every key the application reads. Floats and dates are
  further scalars that the merge treats like the scalars modelled here; they are left out.
\<close>

datatype yaml =
    YNull
  | YBool bool
  | YInt int
  | YStr string
  | YSeq "yaml list"
  | YMap "(string \<times> yaml) list"

type_synonym dict = "(string \<times> yaml) list"

text \<open>The exceptions that the modelled code can raise.\<close>

datatype error =
    FileNotFoundError
  | YAMLError
  | AttributeError
  | TypeError
  | KeyError
  | IndexError

fun unique_keys :: "yaml \<Rightarrow> bool" where
  "unique_keys (YMap kvs) = (distinct (map fst kvs) \<and> (\<forall>kv \<in> set kvs. unique_keys (snd kv)))"
| "unique_keys (YSeq xs) = (\<forall>x \<in> set xs. unique_keys x)"
| "unique_keys _ = True"

section \<open>Deep merge\<close>

text \<open>
  \<^verbatim>\<open>_deep_merge_dicts(base, override)\<close>: \<^verbatim>\<open>result = base.copy()\<close>, then the loop over
  \<^verbatim>\<open>override.items()\<close>. The first argument of the function below is \<^verbatim>\<open>result\<close> (at the
  call it is the copy of \<^verbatim>\<open>base\<close>), the second the items of \<^verbatim>\<open>override\<close> still to visit.
  \<^verbatim>\<open>result[key] = v\<close> replaces the value of a key in place and appends a new key at the end,
  which is \<open>AList.update\<close>. The test \<^verbatim>\<open>key in result and isinstance(result[key], dict) and
  isinstance(value, dict)\<close> is the first case of the case distinction.
\<close>

function deep_merge_dicts :: "dict \<Rightarrow> dict \<Rightarrow> dict" where
  "deep_merge_dicts result [] = result"
| "deep_merge_dicts result ((key, val) # items) =
     (case (map_of result key, val) of
        (Some (YMap b), YMap ov) \<Rightarrow>
          deep_merge_dicts (AList.update key (YMap (deep_merge_dicts b ov)) result) items
      | _ \<Rightarrow> deep_merge_dicts (AList.update key val result) items)"
  by pat_completeness auto
termination
  by (relation "measure (\<lambda>(result, override). size (YMap override))") auto

text \<open>The value that one round of the loop stores under \<open>key\<close>.\<close>

definition merged_value :: "yaml option \<Rightarrow> yaml \<Rightarrow> yaml" where
  "merged_value old val =
     (case (old, val) of
        (Some (YMap b), YMap ov) \<Rightarrow> YMap (deep_merge_dicts b ov)
      | _ \<Rightarrow> val)"

section \<open>Loading\<close>

text \<open>Python's truth value of a loaded document, as \<^verbatim>\<open>or\<close> tests it.\<close>

fun truthy :: "yaml \<Rightarrow> bool" where
  "truthy YNull = False"
| "truthy (YBool b) = b"
| "truthy (YInt i) = (i \<noteq> 0)"
| "truthy (YStr s) = (s \<noteq> [])"
| "truthy (YSeq xs) = (xs \<noteq> [])"
| "truthy (YMap kvs) = (kvs \<noteq> [])"

text \<open>
  The call \<^verbatim>\<open>_deep_merge_dicts(default_config, user_config)\<close> on whatever the documents
  parsed to. \<^verbatim>\<open>base.copy()\<close> exists for dictionaries and lists only, \<^verbatim>\<open>override.items()\<close>
  for dictionaries only (\<^verbatim>\<open>AttributeError\<close> otherwise); a list as \<^verbatim>\<open>base\<close> survives an
  empty \<^verbatim>\<open>override\<close> and fails with \<^verbatim>\<open>TypeError\<close> at the first item of any other, where a
  string indexes the list.
\<close>

fun deep_merge_dicts_call :: "yaml \<Rightarrow> yaml \<Rightarrow> error + yaml" where
  "deep_merge_dicts_call (YMap b) (YMap ov) = Inr (YMap (deep_merge_dicts b ov))"
| "deep_merge_dicts_call (YMap b) _ = Inl AttributeError"
| "deep_merge_dicts_call (YSeq xs) (YMap []) = Inr (YSeq xs)"
| "deep_merge_dicts_call (YSeq xs) (YMap (kv # items)) = Inl TypeError"
| "deep_merge_dicts_call (YSeq xs) _ = Inl AttributeError"
| "deep_merge_dicts_call _ _ = Inl AttributeError"

text \<open>
  \<^verbatim>\<open>load_config()\<close>. The two files are the state it reads: \<open>None\<close> is a file that does not
  exist, \<open>Some text\<close> its content. \<^verbatim>\<open>yaml.safe_load\<close> belongs to the YAML library and is a
  parameter: it returns the parsed document or the exception it raises. Nothing in
  \<^verbatim>\<open>load_config\<close> catches an exception, so each one ends the call.
\<close>

definition load_config ::
  "(string \<Rightarrow> error + yaml) \<Rightarrow> string option \<Rightarrow> string option \<Rightarrow> error + yaml" where
  "load_config safe_load default_file user_file =
     (case default_file of
        None \<Rightarrow> Inl FileNotFoundError
      | Some default_text \<Rightarrow>
          (case safe_load default_text of
             Inl e \<Rightarrow> Inl e
           | Inr default_config \<Rightarrow>
               (case user_file of
                  Some user_text \<Rightarrow>
                    (case safe_load user_text of
                       Inl e \<Rightarrow> Inl e
                     | Inr loaded \<Rightarrow>
                         deep_merge_dicts_call default_config
                           (if truthy loaded then loaded else YMap []))
                | None \<Rightarrow> deep_merge_dicts_call default_config (YMap []))))"

section \<open>Theme colours\<close>

definition bind_result :: "error + 'a \<Rightarrow> ('a \<Rightarrow> error + 'b) \<Rightarrow> error + 'b" where
  "bind_result r f = (case r of Inl e \<Rightarrow> Inl e | Inr v \<Rightarrow> f v)"

text \<open>Indexing a sequence by an integer; a negative index counts from the end.\<close>

definition seq_index :: "'a list \<Rightarrow> int \<Rightarrow> error + 'a" where
  "seq_index xs i =
     (if 0 \<le> i \<and> i < int (length xs) then Inr (xs ! nat i)
      else if i < 0 \<and> - int (length xs) \<le> i then Inr (xs ! nat (int (length xs) + i))
      else Inl IndexError)"

text \<open>
  The subscript \<^verbatim>\<open>obj[key]\<close>. A dictionary raises \<^verbatim>\<open>KeyError\<close> for a key it does not hold
  and \<^verbatim>\<open>TypeError\<close> for a list or dictionary as key; lists and strings take integers
  (a boolean is the integer 0 or 1); nothing else can be subscripted.
\<close>

fun getitem :: "yaml \<Rightarrow> yaml \<Rightarrow> error + yaml" where
  "getitem (YMap d) (YStr k) = (case map_of d k of Some v \<Rightarrow> Inr v | None \<Rightarrow> Inl KeyError)"
| "getitem (YMap d) (YSeq xs) = Inl TypeError"
| "getitem (YMap d) (YMap kvs) = Inl TypeError"
| "getitem (YMap d) _ = Inl KeyError"
| "getitem (YSeq xs) (YInt i) = seq_index xs i"
| "getitem (YSeq xs) (YBool b) = seq_index xs (if b then 1 else 0)"
| "getitem (YSeq xs) _ = Inl TypeError"
| "getitem (YStr s) (YInt i) = map_sum id (\<lambda>c. YStr [c]) (seq_index s i)"
| "getitem (YStr s) (YBool b) = map_sum id (\<lambda>c. YStr [c]) (seq_index s (if b then 1 else 0))"
| "getitem (YStr s) _ = Inl TypeError"
| "getitem _ _ = Inl TypeError"

text \<open>The method call \<^verbatim>\<open>obj.get(key, default)\<close>, which only a dictionary has.\<close>

fun dict_get :: "yaml \<Rightarrow> string \<Rightarrow> yaml \<Rightarrow> error + yaml" where
  "dict_get (YMap d) k dflt = Inr (case map_of d k of Some v \<Rightarrow> v | None \<Rightarrow> dflt)"
| "dict_get _ k dflt = Inl AttributeError"

text \<open>
  \<^verbatim>\<open>_get_colors_from_theme(config)\<close>, each subscript in the order in which Python
  evaluates it.
\<close>

definition get_colors_from_theme :: "yaml \<Rightarrow> error + dict" where
  "get_colors_from_theme config =
     bind_result (getitem config (YStr ''ui'')) (\<lambda>ui.
     bind_result (dict_get ui ''theme'' (YStr ''light'')) (\<lambda>theme_name.
     bind_result (getitem config (YStr ''themes'')) (\<lambda>themes.
     bind_result (getitem themes theme_name) (\<lambda>theme_config.
     bind_result (getitem theme_config (YStr ''background'')) (\<lambda>bg.
     bind_result (getitem theme_config (YStr ''foreground'')) (\<lambda>fg.
     bind_result (getitem theme_config (YStr ''panel_bg'')) (\<lambda>panel_bg.
     bind_result (getitem theme_config (YStr ''accent'')) (\<lambda>accent.
     bind_result (getitem theme_config (YStr ''highlight'')) (\<lambda>highlight.
     bind_result (getitem theme_config (YStr ''border'')) (\<lambda>border.
       Inr [(''bg'', bg), (''fg'', fg), (''panel_bg'', panel_bg), (''accent'', accent),
            (''highlight'', highlight), (''border'', border)]))))))))))"

section \<open>Containers\<close>

datatype ContainerType = BASE | SECTION | LOCATION | TASK

text \<open>
  The attributes that a container class carries and its subclasses redefine. A style
  descriptor is a string, as \<^verbatim>\<open>BASE_COLOR\<close> is; \<^verbatim>\<open>DEPTH_STYLES\<close> is the dictionary from
  depth to style.
\<close>

record container_class =
  CONTAINER_TYPE :: ContainerType
  BASE_COLOR :: string
  DEPTH_STYLES :: "(nat \<times> string) list"

text \<open>The placeholder attributes of \<^verbatim>\<open>YWARContainer\<close> itself.\<close>

definition base_class :: container_class where
  "base_class = \<lparr>CONTAINER_TYPE = BASE, BASE_COLOR = ''#000000'', DEPTH_STYLES = []\<rparr>"

text \<open>
  The fields that \<^verbatim>\<open>__init__\<close> sets on an instance; \<open>cls\<close> is the class of the object.
  Containers live in a heap, a list in order of creation; a reference to a container is
  its index there.
\<close>

record YWARContainer =
  cls :: container_class
  parent_container :: "nat option"
  title :: string
  children_containers :: "nat list"
  depth :: nat
  style_tokens :: string

type_synonym heap = "YWARContainer list"

text \<open>
  The \<^verbatim>\<open>parent\<close> argument: a container of the heap, or a frame of the UI toolkit that is not
  a \<^verbatim>\<open>YWARContainer\<close>.
\<close>

datatype widget = Frame | Container nat

text \<open>
  Modelled from the spec: the loop of \<^verbatim>\<open>_compute_relative_depth\<close>, a method that \<^verbatim>\<open>__init__\<close>
  calls and whose body \<^verbatim>\<open>base.py\<close> does not hold. The spec (4.2, step 1): walk the
  \<^verbatim>\<open>parentContainer\<close> chain upward, counting the ancestors whose kind matches this
  container's kind, and stop at the root. The first argument bounds the number of
  steps; \<open>None\<close> is a walk that does not come to a root within the bound.
\<close>

fun count_same_kind ::
  "nat \<Rightarrow> heap \<Rightarrow> ContainerType \<Rightarrow> nat option \<Rightarrow> nat \<Rightarrow> nat option" where
  "count_same_kind fuel h kind None n = Some n"
| "count_same_kind 0 h kind (Some p) n = None"
| "count_same_kind (Suc fuel) h kind (Some p) n =
     (if p < length h
      then count_same_kind fuel h kind (parent_container (h ! p))
             (if CONTAINER_TYPE (cls (h ! p)) = kind then n + 1 else n)
      else None)"

text \<open>
  Modelled from the spec: \<^verbatim>\<open>_compute_relative_depth\<close> (see above), the walk started at the
  parent with count 0. A chain without a cycle visits no container twice, so the number
  of containers in the heap bounds it.
\<close>

definition compute_relative_depth :: "heap \<Rightarrow> ContainerType \<Rightarrow> nat option \<Rightarrow> nat option" where
  "compute_relative_depth h kind parent = count_same_kind (length h) h kind parent 0"

text \<open>
  Modelled from the spec: \<^verbatim>\<open>_resolve_style_tokens\<close>, a method that \<^verbatim>\<open>__init__\<close> calls and
  whose body \<^verbatim>\<open>base.py\<close> does not hold. The spec (4.2, step 2): look the depth up in the
  table of the kind; an explicit entry is used, otherwise the base style descriptor of
  the kind.
\<close>

definition resolve_style_tokens :: "container_class \<Rightarrow> nat \<Rightarrow> string" where
  "resolve_style_tokens c d =
     (case map_of (DEPTH_STYLES c) d of Some style \<Rightarrow> style | None \<Rightarrow> BASE_COLOR c)"

text \<open>
  Modelled from the spec: \<^verbatim>\<open>_build_structure\<close>, a method that \<^verbatim>\<open>__init__\<close> calls and whose
  body \<^verbatim>\<open>base.py\<close> does not hold. The spec (4.2, side effects) gives construction one
  effect outside the new container: it appends itself to the \<^verbatim>\<open>childContainers\<close> sequence
  of its parent. The statements of \<^verbatim>\<open>__init__\<close> that \<^verbatim>\<open>base.py\<close> holds do not do that, so
  it is the work of this last step. What the method draws (accent bar, header area,
  child container area) is the UI toolkit's and no part of the model.
\<close>

definition build_structure :: "heap \<Rightarrow> nat \<Rightarrow> heap" where
  "build_structure h self =
     (case parent_container (h ! self) of
        None \<Rightarrow> h
      | Some p \<Rightarrow>
          h[p := (h ! p)\<lparr>children_containers := children_containers (h ! p) @ [self]\<rparr>])"

text \<open>
  \<^verbatim>\<open>YWARContainer.__init__(self, parent, title = ...)\<close> for an object of class \<open>c\<close>: the
  new heap and the reference to the new container, or \<open>None\<close> when the walk of the depth
  computation does not return. The fields are assigned in the order of the source:
  \<^verbatim>\<open>parent_container\<close> (the parent when it is a \<^verbatim>\<open>YWARContainer\<close>, else \<^verbatim>\<open>None\<close>), \<^verbatim>\<open>title\<close>,
  \<^verbatim>\<open>children_containers = []\<close>, \<^verbatim>\<open>depth\<close>, \<^verbatim>\<open>style_tokens\<close>, and then the structure is built.

  The state of the model is the fields that \<^verbatim>\<open>YWARContainer\<close> declares. The first
  statement, \<^verbatim>\<open>super().__init__(parent, **kwargs)\<close>, is the set-up of the toolkit's frame:
  it creates the widget and enters it in the toolkit's table of the child widgets of
  \<^verbatim>\<open>parent\<close>. That table and the rest of the widget tree are state of the UI toolkit, not
  fields of the container model, and the heap does not hold them.

  \<^verbatim>\<open>CONTAINER_TYPE\<close> has the type of the enumeration, so a class of the model carries one
  of its four members and no other value; \<^verbatim>\<open>__init__\<close> as \<^verbatim>\<open>base.py\<close> holds it tests none
  of them.
\<close>

definition init :: "heap \<Rightarrow> container_class \<Rightarrow> widget \<Rightarrow> string \<Rightarrow> (heap \<times> nat) option" where
  "init h c parent ttl =
     (let self = length h;
          parent_ref = (case parent of Container p \<Rightarrow> Some p | Frame \<Rightarrow> None)
      in case compute_relative_depth h (CONTAINER_TYPE c) parent_ref of
           None \<Rightarrow> None
         | Some d \<Rightarrow>
             Some (build_structure
                     (h @ [\<lparr>cls = c, parent_container = parent_ref, title = ttl,
                            children_containers = [], depth = d,
                            style_tokens = resolve_style_tokens c d\<rparr>]) self,
                   self))"

text \<open>
  The ancestors of a container, nearest first: the containers met on the way from a
  reference up the \<open>parent_container\<close> links to a container without parent.
\<close>

inductive ancestors :: "heap \<Rightarrow> nat option \<Rightarrow> nat list \<Rightarrow> bool" where
  root: "ancestors h None []"
| up: "p < length h \<Longrightarrow> ancestors h (parent_container (h ! p)) as
       \<Longrightarrow> ancestors h (Some p) (p # as)"

text \<open>
  Heaps that construction can build: a parent exists before its child, so a parent
  reference points to an earlier container. The parent argument is a widget that exists.
\<close>

definition wf_heap :: "heap \<Rightarrow> bool" where
  "wf_heap h =
     (\<forall>i < length h. case parent_container (h ! i) of None \<Rightarrow> True | Some p \<Rightarrow> p < i)"

definition parent_ok :: "heap \<Rightarrow> widget \<Rightarrow> bool" where
  "parent_ok h parent = (case parent of Frame \<Rightarrow> True | Container p \<Rightarrow> p < length h)"

section \<open>Properties of the merge\<close>

lemma deep_merge_dicts_step:
  "deep_merge_dicts result ((key, val) # items) =
     deep_merge_dicts (AList.update key (merged_value (map_of result key) val) result) items"
  by (simp add: merged_value_def split: option.split yaml.split)

lemma keys_deep_merge_dicts:
  "fst ` set (deep_merge_dicts result override) = fst ` set result \<union> fst ` set override"
proof (induction override arbitrary: result)
  case Nil
  show ?case by simp
next
  case (Cons kv items)
  obtain key val where kv: "kv = (key, val)" by (cases kv)
  show ?case
    unfolding kv deep_merge_dicts_step Cons.IH
    by (auto simp: dom_update)
qed

lemma distinct_deep_merge_dicts:
  "distinct (map fst result) \<Longrightarrow> distinct (map fst (deep_merge_dicts result override))"
proof (induction override arbitrary: result)
  case Nil
  then show ?case by simp
next
  case (Cons kv items)
  obtain key val where kv: "kv = (key, val)" by (cases kv)
  show ?case
    unfolding kv deep_merge_dicts_step
    by (rule Cons.IH) (simp add: distinct_update Cons.prems)
qed

lemma map_of_deep_merge_dicts:
  "distinct (map fst override) \<Longrightarrow>
   map_of (deep_merge_dicts result override) k =
     (case map_of override k of
        None \<Rightarrow> map_of result k
      | Some val \<Rightarrow> Some (merged_value (map_of result k) val))"
proof (induction override arbitrary: result)
  case Nil
  show ?case by simp
next
  case (Cons kv items)
  obtain key val where kv: "kv = (key, val)" by (cases kv)
  from Cons.prems have d: "distinct (map fst items)" and nin: "key \<notin> fst ` set items"
    by (auto simp: kv)
  from nin have none: "map_of items key = None"
    by (simp add: map_of_eq_None_iff)
  show ?case
    unfolding kv deep_merge_dicts_step Cons.IH [OF d]
    using none by (auto simp: update_conv' split: option.split)
qed

text \<open>
  A loop whose every round stores the value that is already there leaves \<open>result\<close> as it
  is.
\<close>

lemma deep_merge_dicts_fixed:
  "(\<And>key val. (key, val) \<in> set override \<Longrightarrow>
      merged_value (map_of result key) val = val \<and> map_of result key = Some val)
   \<Longrightarrow> deep_merge_dicts result override = result"
proof (induction override)
  case Nil
  show ?case by simp
next
  case (Cons kv items)
  obtain key val where kv: "kv = (key, val)" by (cases kv)
  have "merged_value (map_of result key) val = val" and "map_of result key = Some val"
    using Cons.prems [of key val] by (auto simp: kv)
  then have "AList.update key (merged_value (map_of result key) val) result = result"
    by (simp add: update_triv)
  moreover have "deep_merge_dicts result items = result"
    by (rule Cons.IH) (simp add: Cons.prems)
  ultimately show ?case
    unfolding kv deep_merge_dicts_step by simp
qed

lemma deep_merge_dicts_self_aux:
  "unique_keys v \<Longrightarrow> (case v of YMap d \<Rightarrow> deep_merge_dicts d d = d | _ \<Rightarrow> True)"
proof (induction v)
  case (YMap kvs)
  have "deep_merge_dicts kvs kvs = kvs"
  proof (rule deep_merge_dicts_fixed)
    fix key val
    assume mem: "(key, val) \<in> set kvs"
    from YMap.prems have dist: "distinct (map fst kvs)" and uk: "unique_keys val"
      using mem by auto
    from dist mem have look: "map_of kvs key = Some val"
      by simp
    have "val \<in> Basic_BNFs.snds (key, val)" by simp
    from YMap.IH [OF mem this uk]
    have "merged_value (Some val) val = val"
      by (cases val) (simp_all add: merged_value_def)
    with look show "merged_value (map_of kvs key) val = val \<and> map_of kvs key = Some val"
      by simp
  qed
  then show ?case by simp
qed simp_all

text \<open>
  C1. The keys of the merge are the keys of both dictionaries. A key that \<open>override\<close> does
  not mention keeps the value of \<open>base\<close> (so no such key is dropped); a key of \<open>override\<close>
  whose two values are both dictionaries holds their recursive merge; every other key of
  \<open>override\<close> holds the value of \<open>override\<close>, also where a dictionary meets a scalar:
  \<^verbatim>\<open>merge({a: {x: 1}}, {a: 5}) == {a: 5}\<close>.
\<close>

theorem deep_merge_dicts_spec:
  assumes "distinct (map fst override)"
  shows "fst ` set (deep_merge_dicts base override) = fst ` set base \<union> fst ` set override
    \<and> (\<forall>k. map_of (deep_merge_dicts base override) k =
          (case map_of override k of
             None \<Rightarrow> map_of base k
           | Some val \<Rightarrow>
               (case (map_of base k, val) of
                  (Some (YMap b), YMap ov) \<Rightarrow> Some (YMap (deep_merge_dicts b ov))
                | _ \<Rightarrow> Some val)))
    \<and> deep_merge_dicts [(''a'', YMap [(''x'', YInt 1)])] [(''a'', YInt 5)] = [(''a'', YInt 5)]"
proof -
  have "map_of (deep_merge_dicts base override) k =
          (case map_of override k of
             None \<Rightarrow> map_of base k
           | Some val \<Rightarrow>
               (case (map_of base k, val) of
                  (Some (YMap b), YMap ov) \<Rightarrow> Some (YMap (deep_merge_dicts b ov))
                | _ \<Rightarrow> Some val))" for k
    unfolding map_of_deep_merge_dicts [OF assms]
    by (simp add: merged_value_def split: option.split yaml.split)
  then show ?thesis
    by (simp add: keys_deep_merge_dicts)
qed

theorem deep_merge_dicts_spec_witness:
  "distinct (map fst [(''a'', YMap [(''y'', YInt 9)]), (''c'', YBool True)])
   \<and> fst ` set (deep_merge_dicts
        [(''a'', YMap [(''x'', YInt 1), (''y'', YInt 2)]), (''b'', YStr ''keep'')]
        [(''a'', YMap [(''y'', YInt 9)]), (''c'', YBool True)]) = {''a'', ''b'', ''c''}
   \<and> map_of (deep_merge_dicts
        [(''a'', YMap [(''x'', YInt 1), (''y'', YInt 2)]), (''b'', YStr ''keep'')]
        [(''a'', YMap [(''y'', YInt 9)]), (''c'', YBool True)]) ''a''
       = Some (YMap [(''x'', YInt 1), (''y'', YInt 9)])
   \<and> map_of (deep_merge_dicts
        [(''a'', YMap [(''x'', YInt 1), (''y'', YInt 2)]), (''b'', YStr ''keep'')]
        [(''a'', YMap [(''y'', YInt 9)]), (''c'', YBool True)]) ''b''
       = Some (YStr ''keep'')"
  using deep_merge_dicts_spec
    [of "[(''a'', YMap [(''y'', YInt 9)]), (''c'', YBool True)]"
        "[(''a'', YMap [(''x'', YInt 1), (''y'', YInt 2)]), (''b'', YStr ''keep'')]"]
  by auto

text \<open>
  C8. Merging a dictionary with itself gives the dictionary back, keys in the same order.
\<close>

theorem deep_merge_dicts_self:
  "unique_keys (YMap b) \<Longrightarrow> deep_merge_dicts b b = b"
  using deep_merge_dicts_self_aux [of "YMap b"] by simp

theorem deep_merge_dicts_self_witness:
  "unique_keys (YMap [(''a'', YMap [(''x'', YInt 1), (''y'', YInt 2)]), (''b'', YSeq [YNull])])
   \<and> deep_merge_dicts
        [(''a'', YMap [(''x'', YInt 1), (''y'', YInt 2)]), (''b'', YSeq [YNull])]
        [(''a'', YMap [(''x'', YInt 1), (''y'', YInt 2)]), (''b'', YSeq [YNull])]
      = [(''a'', YMap [(''x'', YInt 1), (''y'', YInt 2)]), (''b'', YSeq [YNull])]"
  using deep_merge_dicts_self
    [of "[(''a'', YMap [(''x'', YInt 1), (''y'', YInt 2)]), (''b'', YSeq [YNull])]"]
  by simp

section \<open>Properties of loading\<close>

text \<open>
  C7. Without a user file the override is the empty dictionary, and the empty override
  changes nothing: \<open>load_config\<close> returns the parsed default configuration, and
  \<^verbatim>\<open>merge(B, {}) == B\<close> for every dictionary \<open>B\<close>.
\<close>

theorem load_config_no_override:
  "(default_file = Some default_text \<and> safe_load default_text = Inr (YMap b)
      \<longrightarrow> load_config safe_load default_file None = Inr (YMap b))
   \<and> deep_merge_dicts B [] = B"
  by (auto simp: load_config_def)

theorem load_config_no_override_witness:
  "Some ''a: 1'' = Some ''a: 1''
   \<and> (\<lambda>s. if s = ''a: 1'' then Inr (YMap [(''a'', YInt 1)]) else Inl YAMLError) ''a: 1''
       = Inr (YMap [(''a'', YInt 1)])
   \<and> load_config (\<lambda>s. if s = ''a: 1'' then Inr (YMap [(''a'', YInt 1)]) else Inl YAMLError)
       (Some ''a: 1'') None = Inr (YMap [(''a'', YInt 1)])"
  using load_config_no_override
    [of "Some ''a: 1''" "''a: 1''"
        "\<lambda>s. if s = ''a: 1'' then Inr (YMap [(''a'', YInt 1)]) else Inl YAMLError"
        "[(''a'', YInt 1)]"]
  by simp

text \<open>
  C4. A user file that exists and does not parse ends \<open>load_config\<close> with an error; when
  the default file loaded, the error is the one the parser raised on the user file. No
  configuration is returned.
\<close>

theorem load_config_malformed_override:
  assumes "user_file = Some user_text" and "safe_load user_text = Inl e"
  shows "(\<exists>e'. load_config safe_load default_file user_file = Inl e')
    \<and> (\<forall>default_text default_config.
          default_file = Some default_text \<and> safe_load default_text = Inr default_config
          \<longrightarrow> load_config safe_load default_file user_file = Inl e)"
  using assms by (auto simp: load_config_def split: option.split sum.split)

theorem load_config_malformed_override_witness:
  "(\<lambda>s. if s = ''a: 1'' then Inr (YMap [(''a'', YInt 1)]) else Inl YAMLError) ''a: [''
     = Inl YAMLError
   \<and> load_config (\<lambda>s. if s = ''a: 1'' then Inr (YMap [(''a'', YInt 1)]) else Inl YAMLError)
       (Some ''a: 1'') (Some ''a: ['') = Inl YAMLError"
  using load_config_malformed_override
    [of "Some ''a: [''" "''a: [''"
        "\<lambda>s. if s = ''a: 1'' then Inr (YMap [(''a'', YInt 1)]) else Inl YAMLError"
        YAMLError "Some ''a: 1''"]
  by simp

text \<open>
  C5, as the code has it. A default file that does not exist ends \<open>load_config\<close> with
  \<^verbatim>\<open>FileNotFoundError\<close>, the error of \<^verbatim>\<open>open\<close>; a default file that does not parse ends it
  with the error that the parser raised. In both cases no configuration is returned,
  whatever the user file holds.
\<close>

theorem load_config_base_failure:
  "(default_file = None
      \<longrightarrow> load_config safe_load default_file user_file = Inl FileNotFoundError)
   \<and> (\<forall>default_text e. default_file = Some default_text \<and> safe_load default_text = Inl e
         \<longrightarrow> load_config safe_load default_file user_file = Inl e)"
  by (auto simp: load_config_def)

theorem load_config_base_failure_witness:
  "load_config (\<lambda>s. if s = ''a: 1'' then Inr (YMap [(''a'', YInt 1)]) else Inl YAMLError)
       None (Some ''a: 1'') = Inl FileNotFoundError
   \<and> load_config (\<lambda>s. if s = ''a: 1'' then Inr (YMap [(''a'', YInt 1)]) else Inl YAMLError)
       (Some ''a: ['') (Some ''a: 1'') = Inl YAMLError"
  using load_config_base_failure
    [of None "\<lambda>s. if s = ''a: 1'' then Inr (YMap [(''a'', YInt 1)]) else Inl YAMLError"
        "Some ''a: 1''"]
    load_config_base_failure
    [of "Some ''a: [''" "\<lambda>s. if s = ''a: 1'' then Inr (YMap [(''a'', YInt 1)]) else Inl YAMLError"
        "Some ''a: 1''"]
  by simp

text \<open>
  C5, as the claim has it, fails: the two failures of the default file are not one
  error. The missing file raises \<^verbatim>\<open>FileNotFoundError\<close> and the file that does not parse
  raises the parser's \<^verbatim>\<open>YAMLError\<close>; the code defines no \<^verbatim>\<open>MissingConfiguration\<close>.
\<close>

theorem load_config_base_failure_counterexample:
  "load_config (\<lambda>s. Inl YAMLError) None None = Inl FileNotFoundError
   \<and> load_config (\<lambda>s. Inl YAMLError) (Some ''a: ['') None = Inl YAMLError
   \<and> load_config (\<lambda>s. Inl YAMLError) None None
       \<noteq> load_config (\<lambda>s. Inl YAMLError) (Some ''a: ['') None"
  by (simp add: load_config_def)

section \<open>Properties of the theme colours\<close>

lemma bind_result_simps [simp]:
  "bind_result (Inl e) f = Inl e" "bind_result (Inr v) f = f v"
  by (simp_all add: bind_result_def)

text \<open>
  C10. Let the configuration hold dictionaries under \<^verbatim>\<open>ui\<close> and \<^verbatim>\<open>themes\<close>, and let \<open>name\<close> be
  the selected theme: \<^verbatim>\<open>light\<close> when \<^verbatim>\<open>ui\<close> has no key \<^verbatim>\<open>theme\<close>, the string under that key
  otherwise. When \<^verbatim>\<open>themes\<close> has no key \<open>name\<close>, the call fails with \<^verbatim>\<open>KeyError\<close>. When it
  holds a dictionary there, the result is built from exactly the six keys \<^verbatim>\<open>background\<close>,
  \<^verbatim>\<open>foreground\<close>, \<^verbatim>\<open>panel_bg\<close>, \<^verbatim>\<open>accent\<close>, \<^verbatim>\<open>highlight\<close>, \<^verbatim>\<open>border\<close> of it, stored under \<^verbatim>\<open>bg\<close>,
  \<^verbatim>\<open>fg\<close>, \<^verbatim>\<open>panel_bg\<close>, \<^verbatim>\<open>accent\<close>, \<^verbatim>\<open>highlight\<close>, \<^verbatim>\<open>border\<close>, and a missing one is a \<^verbatim>\<open>KeyError\<close>.
\<close>

theorem get_colors_from_theme_spec:
  assumes ui: "map_of config ''ui'' = Some (YMap ui)"
    and themes: "map_of config ''themes'' = Some (YMap themes)"
    and name: "map_of ui ''theme'' = None \<and> name = ''light''
               \<or> map_of ui ''theme'' = Some (YStr name)"
  shows "(map_of themes name = None \<longrightarrow> get_colors_from_theme (YMap config) = Inl KeyError)
    \<and> (\<forall>t. map_of themes name = Some (YMap t) \<longrightarrow>
          get_colors_from_theme (YMap config) =
            (case those (map (map_of t)
                    [''background'', ''foreground'', ''panel_bg'', ''accent'', ''highlight'',
                     ''border''])
             of None \<Rightarrow> Inl KeyError
              | Some vs \<Rightarrow>
                  Inr (zip [''bg'', ''fg'', ''panel_bg'', ''accent'', ''highlight'', ''border'']
                         vs)))"
proof -
  have sel: "dict_get (YMap ui) ''theme'' (YStr ''light'') = Inr (YStr name)"
    using name by auto
  show ?thesis
  proof (cases "map_of themes name")
    case None
    then show ?thesis
      by (simp add: get_colors_from_theme_def ui themes sel del: dict_get.simps)
  next
    case (Some v)
    then show ?thesis
      by (simp add: get_colors_from_theme_def ui themes sel del: dict_get.simps
          split: option.split)
  qed
qed

theorem get_colors_from_theme_spec_witness:
  "map_of [(''ui'', YMap [(''font'', YNull)]),
           (''themes'', YMap [(''light'', YMap
              [(''background'', YStr ''#ffffff''), (''foreground'', YStr ''#000000''),
               (''panel_bg'', YStr ''#eeeeee''), (''accent'', YStr ''#3366cc''),
               (''highlight'', YStr ''#ffcc00''), (''border'', YStr ''#999999''),
               (''extra'', YInt 1)])])] ''ui'' = Some (YMap [(''font'', YNull)])
   \<and> map_of [(''font'', YNull)] ''theme'' = None
   \<and> get_colors_from_theme (YMap
          [(''ui'', YMap [(''font'', YNull)]),
           (''themes'', YMap [(''light'', YMap
              [(''background'', YStr ''#ffffff''), (''foreground'', YStr ''#000000''),
               (''panel_bg'', YStr ''#eeeeee''), (''accent'', YStr ''#3366cc''),
               (''highlight'', YStr ''#ffcc00''), (''border'', YStr ''#999999''),
               (''extra'', YInt 1)])])])
      = Inr [(''bg'', YStr ''#ffffff''), (''fg'', YStr ''#000000''),
             (''panel_bg'', YStr ''#eeeeee''), (''accent'', YStr ''#3366cc''),
             (''highlight'', YStr ''#ffcc00''), (''border'', YStr ''#999999'')]
   \<and> get_colors_from_theme (YMap
          [(''ui'', YMap [(''theme'', YStr ''dark'')]),
           (''themes'', YMap [(''light'', YMap [])])]) = Inl KeyError"
  using get_colors_from_theme_spec
    [of "[(''ui'', YMap [(''font'', YNull)]),
           (''themes'', YMap [(''light'', YMap
              [(''background'', YStr ''#ffffff''), (''foreground'', YStr ''#000000''),
               (''panel_bg'', YStr ''#eeeeee''), (''accent'', YStr ''#3366cc''),
               (''highlight'', YStr ''#ffcc00''), (''border'', YStr ''#999999''),
               (''extra'', YInt 1)])])]"
        "[(''font'', YNull)]"
        "[(''light'', YMap
              [(''background'', YStr ''#ffffff''), (''foreground'', YStr ''#000000''),
               (''panel_bg'', YStr ''#eeeeee''), (''accent'', YStr ''#3366cc''),
               (''highlight'', YStr ''#ffcc00''), (''border'', YStr ''#999999''),
               (''extra'', YInt 1)])]"
        "''light''"]
    get_colors_from_theme_spec
    [of "[(''ui'', YMap [(''theme'', YStr ''dark'')]),
           (''themes'', YMap [(''light'', YMap [])])]"
        "[(''theme'', YStr ''dark'')]" "[(''light'', YMap [])]" "''dark''"]
  by simp

section \<open>Properties of container construction\<close>

lemma count_same_kind_ancestors:
  "ancestors h r as \<Longrightarrow> length as \<le> fuel \<Longrightarrow>
   count_same_kind fuel h kind r n =
     Some (n + length (filter (\<lambda>a. CONTAINER_TYPE (cls (h ! a)) = kind) as))"
proof (induction arbitrary: fuel n rule: ancestors.induct)
  case (root h)
  show ?case by simp
next
  case (up p h as)
  from up.prems obtain fuel' where f: "fuel = Suc fuel'" and le: "length as \<le> fuel'"
    by (cases fuel) auto
  show ?case
    unfolding f using up.hyps(1) up.IH [OF le] by simp
qed

lemma wf_heap_ancestors:
  assumes "wf_heap h"
  shows "p < length h \<Longrightarrow> \<exists>as. ancestors h (Some p) as \<and> length as \<le> Suc p"
proof (induction p rule: less_induct)
  case (less p)
  show ?case
  proof (cases "parent_container (h ! p)")
    case None
    have "ancestors h (Some p) [p]"
      using ancestors.up [of p h "[]"] ancestors.root [of h] less.prems None by simp
    then show ?thesis by auto
  next
    case (Some q)
    with assms less.prems have q: "q < p"
      by (auto simp: wf_heap_def split: option.splits)
    with less.prems have "q < length h" by simp
    from less.IH [OF q this] obtain as
      where as: "ancestors h (Some q) as" "length as \<le> Suc q"
      by blast
    then have "ancestors h (Some p) (p # as)"
      using ancestors.up [of p h as] less.prems Some by simp
    with as q show ?thesis by auto
  qed
qed

lemma ancestors_bound:
  "ancestors h r as \<Longrightarrow> a \<in> set as \<Longrightarrow> a < length h"
  by (induction rule: ancestors.induct) auto

text \<open>
  The chain of ancestors reads the \<open>parent_container\<close> links only: a heap that has the
  containers of \<open>h\<close> with the same links has the chains of \<open>h\<close>.
\<close>

lemma ancestors_same_links:
  "ancestors h r as \<Longrightarrow> length h \<le> length h' \<Longrightarrow>
   (\<forall>i < length h. parent_container (h' ! i) = parent_container (h ! i)) \<Longrightarrow>
   ancestors h' r as"
proof (induction rule: ancestors.induct)
  case (root h)
  show ?case by (rule ancestors.root)
next
  case (up p h as)
  from up.prems up.hyps(1) have "p < length h'"
    and "parent_container (h' ! p) = parent_container (h ! p)"
    by auto
  with up.IH [OF up.prems] show ?case
    using ancestors.up [of p h' as] by simp
qed

lemma ancestors_unique:
  "ancestors h r as \<Longrightarrow> ancestors h r bs \<Longrightarrow> bs = as"
proof (induction arbitrary: bs rule: ancestors.induct)
  case (root h)
  then show ?case by (auto elim: ancestors.cases)
next
  case (up p h as)
  from up.prems obtain cs where "bs = p # cs" "ancestors h (parent_container (h ! p)) cs"
    by (auto elim: ancestors.cases)
  with up.IH show ?case by simp
qed

lemma parent_ancestors:
  assumes "wf_heap h" "parent_ok h parent"
  shows "\<exists>as. ancestors h (case parent of Container p \<Rightarrow> Some p | Frame \<Rightarrow> None) as
            \<and> length as \<le> length h"
proof (cases parent)
  case Frame
  then show ?thesis by (auto intro: ancestors.root)
next
  case (Container p)
  with assms have p: "p < length h" by (simp add: parent_ok_def)
  from wf_heap_ancestors [OF assms(1) p] p show ?thesis
    by (auto simp: Container)
qed

text \<open>
  The last step of construction changes one field of one container: the
  \<open>children_containers\<close> of the parent.
\<close>

lemma length_build_structure [simp]:
  "length (build_structure h self) = length h"
  by (simp add: build_structure_def split: option.split)

lemma build_structure_other_fields:
  "cls (build_structure h self ! i) = cls (h ! i)
   \<and> parent_container (build_structure h self ! i) = parent_container (h ! i)
   \<and> title (build_structure h self ! i) = title (h ! i)
   \<and> depth (build_structure h self ! i) = depth (h ! i)
   \<and> style_tokens (build_structure h self ! i) = style_tokens (h ! i)"
proof (cases "parent_container (h ! self)")
  case None
  then show ?thesis by (simp add: build_structure_def)
next
  case (Some p)
  show ?thesis
  proof (cases "p < length h")
    case True
    then show ?thesis
      by (cases "i = p") (simp_all add: build_structure_def Some)
  next
    case False
    then have "h[p := (h ! p)\<lparr>children_containers := children_containers (h ! p) @ [self]\<rparr>] = h"
      by (simp add: list_update_beyond)
    then show ?thesis
      by (simp add: build_structure_def Some)
  qed
qed

text \<open>What a construction that returns has built.\<close>

lemma init_Some:
  assumes "init h c parent ttl = Some (h', self)"
  shows "\<exists>d. compute_relative_depth h (CONTAINER_TYPE c)
                (case parent of Container p \<Rightarrow> Some p | Frame \<Rightarrow> None) = Some d
           \<and> self = length h
           \<and> h' = build_structure (h @ [\<lparr>cls = c,
                  parent_container = (case parent of Container p \<Rightarrow> Some p | Frame \<Rightarrow> None),
                  title = ttl, children_containers = [], depth = d,
                  style_tokens = resolve_style_tokens c d\<rparr>]) (length h)"
  using assms by (auto simp: init_def Let_def split: option.splits)

lemma init_returns:
  assumes "wf_heap h" "parent_ok h parent"
  shows "\<exists>h' self. init h c parent ttl = Some (h', self)"
proof -
  from parent_ancestors [OF assms] obtain as where
    "ancestors h (case parent of Container p \<Rightarrow> Some p | Frame \<Rightarrow> None) as"
    "length as \<le> length h" by blast
  from count_same_kind_ancestors [OF this]
  show ?thesis
    by (simp add: init_def compute_relative_depth_def Let_def)
qed

text \<open>
  The fields of the containers after a construction that returns, except
  \<open>children_containers\<close>: those of the new container are the ones \<^verbatim>\<open>__init__\<close> assigns,
  those of the others are as before.
\<close>

lemma init_fields:
  assumes "init h c parent ttl = Some (h', self)"
  shows "self = length h \<and> length h' = Suc (length h)
    \<and> cls (h' ! self) = c
    \<and> parent_container (h' ! self) = (case parent of Container p \<Rightarrow> Some p | Frame \<Rightarrow> None)
    \<and> title (h' ! self) = ttl
    \<and> compute_relative_depth h (CONTAINER_TYPE c)
         (case parent of Container p \<Rightarrow> Some p | Frame \<Rightarrow> None) = Some (depth (h' ! self))
    \<and> style_tokens (h' ! self) = resolve_style_tokens c (depth (h' ! self))
    \<and> (\<forall>i < length h. cls (h' ! i) = cls (h ! i)
          \<and> parent_container (h' ! i) = parent_container (h ! i)
          \<and> title (h' ! i) = title (h ! i)
          \<and> depth (h' ! i) = depth (h ! i)
          \<and> style_tokens (h' ! i) = style_tokens (h ! i))"
proof -
  from init_Some [OF assms] obtain d where
    d: "compute_relative_depth h (CONTAINER_TYPE c)
                (case parent of Container p \<Rightarrow> Some p | Frame \<Rightarrow> None) = Some d"
    and self: "self = length h"
    and h': "h' = build_structure (h @ [\<lparr>cls = c,
                  parent_container = (case parent of Container p \<Rightarrow> Some p | Frame \<Rightarrow> None),
                  title = ttl, children_containers = [], depth = d,
                  style_tokens = resolve_style_tokens c d\<rparr>]) (length h)"
    by blast
  show ?thesis
    unfolding h' self
    by (simp add: build_structure_other_fields d nth_append)
qed

lemma wf_heap_init:
  assumes "wf_heap h" "parent_ok h parent" "init h c parent ttl = Some (h', self)"
  shows "wf_heap h'"
proof -
  note f = init_fields [OF assms(3)]
  have "case parent_container (h' ! i) of None \<Rightarrow> True | Some p \<Rightarrow> p < i"
    if "i < length h'" for i
  proof (cases "i < length h")
    case True
    with f have "parent_container (h' ! i) = parent_container (h ! i)" by simp
    with assms(1) True show ?thesis by (simp add: wf_heap_def)
  next
    case False
    with that f have "i = self" by simp
    with f assms(2) show ?thesis
      by (auto simp: parent_ok_def split: widget.splits)
  qed
  then show ?thesis by (simp add: wf_heap_def)
qed

text \<open>
  The depth that a construction stores is the number of ancestors of the kind of the
  class, counted on the chain in the new heap.
\<close>

lemma init_depth:
  assumes wf: "wf_heap h" and ok: "parent_ok h parent"
    and i: "init h c parent ttl = Some (h', self)"
  shows "\<exists>as. ancestors h' (parent_container (h' ! self)) as
    \<and> depth (h' ! self) =
        length (filter (\<lambda>a. CONTAINER_TYPE (cls (h' ! a)) = CONTAINER_TYPE c) as)"
proof -
  let ?r = "case parent of Container p \<Rightarrow> Some p | Frame \<Rightarrow> None"
  note f = init_fields [OF i]
  from parent_ancestors [OF wf ok] obtain as where
    as: "ancestors h ?r as" "length as \<le> length h" by blast
  from count_same_kind_ancestors [OF as, of "CONTAINER_TYPE c" 0] f
  have dd: "depth (h' ! self)
      = length (filter (\<lambda>a. CONTAINER_TYPE (cls (h ! a)) = CONTAINER_TYPE c) as)"
    by (simp add: compute_relative_depth_def)
  have old: "a \<in> set as \<Longrightarrow> cls (h' ! a) = cls (h ! a)" for a
    using ancestors_bound [OF as(1)] f by simp
  have "filter (\<lambda>a. CONTAINER_TYPE (cls (h' ! a)) = CONTAINER_TYPE c) as
      = filter (\<lambda>a. CONTAINER_TYPE (cls (h ! a)) = CONTAINER_TYPE c) as"
    by (rule filter_cong) (simp_all add: old)
  moreover have "ancestors h' ?r as"
    by (rule ancestors_same_links [OF as(1)]) (use f in simp_all)
  moreover from f have "parent_container (h' ! self) = ?r" by blast
  ultimately have "ancestors h' (parent_container (h' ! self)) as
    \<and> depth (h' ! self) =
        length (filter (\<lambda>a. CONTAINER_TYPE (cls (h' ! a)) = CONTAINER_TYPE c) as)"
    using dd by simp
  then show ?thesis ..
qed

text \<open>
  C2. A container built in a well-formed hierarchy has a chain of ancestors, and its
  \<open>depth\<close> is the number of containers on that chain whose kind is its own; it is 0 when
  the chain has none. In the hierarchy Section, Task, Task, each the parent of the next,
  the depths are 0, 0 and 1.
\<close>

theorem init_relative_depth:
  assumes "wf_heap h" and "parent_ok h parent"
  shows "(\<exists>h' self. init h c parent ttl = Some (h', self)
      \<and> (\<exists>as. ancestors h' (parent_container (h' ! self)) as)
      \<and> (\<forall>as. ancestors h' (parent_container (h' ! self)) as \<longrightarrow>
            depth (h' ! self) =
              length (filter (\<lambda>a. CONTAINER_TYPE (cls (h' ! a))
                                   = CONTAINER_TYPE (cls (h' ! self))) as)))
    \<and> (\<forall>sec task. CONTAINER_TYPE sec = SECTION \<and> CONTAINER_TYPE task = TASK \<longrightarrow>
          (\<exists>h1 h2 h3. init [] sec Frame t0 = Some (h1, 0)
             \<and> init h1 task (Container 0) t1 = Some (h2, 1)
             \<and> init h2 task (Container 1) t2 = Some (h3, 2)
             \<and> map depth h3 = [0, 0, 1]))"
proof -
  from init_returns [OF assms] obtain h' self
    where i: "init h c parent ttl = Some (h', self)" by blast
  from init_fields [OF i] have c: "cls (h' ! self) = c" by blast
  from init_depth [OF assms i] obtain as
    where as: "ancestors h' (parent_container (h' ! self)) as"
      and d: "depth (h' ! self) =
              length (filter (\<lambda>a. CONTAINER_TYPE (cls (h' ! a))
                                   = CONTAINER_TYPE (cls (h' ! self))) as)"
    unfolding c by blast
  have general: "\<exists>h' self. init h c parent ttl = Some (h', self)
      \<and> (\<exists>as. ancestors h' (parent_container (h' ! self)) as)
      \<and> (\<forall>as. ancestors h' (parent_container (h' ! self)) as \<longrightarrow>
            depth (h' ! self) =
              length (filter (\<lambda>a. CONTAINER_TYPE (cls (h' ! a))
                                   = CONTAINER_TYPE (cls (h' ! self))) as))"
    using i as d ancestors_unique [OF as] by blast
  have example: "\<exists>h1 h2 h3. init [] sec Frame t0 = Some (h1, 0)
             \<and> init h1 task (Container 0) t1 = Some (h2, 1)
             \<and> init h2 task (Container 1) t2 = Some (h3, 2)
             \<and> map depth h3 = [0, 0, 1]"
    if "CONTAINER_TYPE sec = SECTION" "CONTAINER_TYPE task = TASK" for sec task
    using that
    by (simp add: init_def compute_relative_depth_def build_structure_def)
  from general example show ?thesis by blast
qed

theorem init_relative_depth_witness:
  "wf_heap
     [\<lparr>cls = \<lparr>CONTAINER_TYPE = TASK, BASE_COLOR = ''#445566'', DEPTH_STYLES = []\<rparr>,
       parent_container = None, title = ''outer'', children_containers = [], depth = 0,
       style_tokens = ''#445566''\<rparr>]
   \<and> parent_ok
     [\<lparr>cls = \<lparr>CONTAINER_TYPE = TASK, BASE_COLOR = ''#445566'', DEPTH_STYLES = []\<rparr>,
       parent_container = None, title = ''outer'', children_containers = [], depth = 0,
       style_tokens = ''#445566''\<rparr>] (Container 0)
   \<and> (\<exists>h' self. init
     [\<lparr>cls = \<lparr>CONTAINER_TYPE = TASK, BASE_COLOR = ''#445566'', DEPTH_STYLES = []\<rparr>,
       parent_container = None, title = ''outer'', children_containers = [], depth = 0,
       style_tokens = ''#445566''\<rparr>]
       \<lparr>CONTAINER_TYPE = TASK, BASE_COLOR = ''#445566'', DEPTH_STYLES = []\<rparr>
       (Container 0) ''inner'' = Some (h', self) \<and> depth (h' ! self) = 1)"
  using init_relative_depth
    [of "[\<lparr>cls = \<lparr>CONTAINER_TYPE = TASK, BASE_COLOR = ''#445566'', DEPTH_STYLES = []\<rparr>,
       parent_container = None, title = ''outer'', children_containers = [], depth = 0,
       style_tokens = ''#445566''\<rparr>]" "Container 0"
       "\<lparr>CONTAINER_TYPE = TASK, BASE_COLOR = ''#445566'', DEPTH_STYLES = []\<rparr>" "''inner''"]
  by (simp add: wf_heap_def parent_ok_def init_def compute_relative_depth_def
      build_structure_def)

text \<open>
  C3. A container built in a well-formed hierarchy has a style, and construction
  returns whatever the table holds: the style is the entry of the table of its class for
  its relative depth, the number of ancestors of its kind, when the table has an entry
  for that depth, and the base style of the class when it has none. With the table
  \<^verbatim>\<open>{0: "base", 1: "deep"}\<close>, a Task without a Task above it gets \<^verbatim>\<open>base\<close>, a Task under
  one Task gets \<^verbatim>\<open>deep\<close>, and a Task under two Tasks, at depth 2, gets the base style of
  the class.
\<close>

theorem init_style_tokens:
  assumes "wf_heap h" and "parent_ok h parent"
  shows "(\<exists>h' self. init h c parent ttl = Some (h', self)
      \<and> (\<exists>as. ancestors h' (parent_container (h' ! self)) as)
      \<and> (\<forall>as. ancestors h' (parent_container (h' ! self)) as \<longrightarrow>
            depth (h' ! self) =
              length (filter (\<lambda>a. CONTAINER_TYPE (cls (h' ! a)) = CONTAINER_TYPE c) as)
            \<and> style_tokens (h' ! self) =
              (case map_of (DEPTH_STYLES c)
                      (length (filter (\<lambda>a. CONTAINER_TYPE (cls (h' ! a)) = CONTAINER_TYPE c) as))
               of Some style \<Rightarrow> style | None \<Rightarrow> BASE_COLOR c))
      \<and> (\<forall>style. map_of (DEPTH_STYLES c) (depth (h' ! self)) = Some style
            \<longrightarrow> style_tokens (h' ! self) = style)
      \<and> (map_of (DEPTH_STYLES c) (depth (h' ! self)) = None
            \<longrightarrow> style_tokens (h' ! self) = BASE_COLOR c))
    \<and> (\<forall>task. CONTAINER_TYPE task = TASK
                \<and> DEPTH_STYLES task = [(0, ''base''), (1, ''deep'')] \<longrightarrow>
          (\<exists>h1 h2 h3. init [] task Frame t0 = Some (h1, 0)
             \<and> init h1 task (Container 0) t1 = Some (h2, 1)
             \<and> init h2 task (Container 1) t2 = Some (h3, 2)
             \<and> map depth h3 = [0, 1, 2]
             \<and> map style_tokens h3 = [''base'', ''deep'', BASE_COLOR task]))
    \<and> resolve_style_tokens
        \<lparr>CONTAINER_TYPE = TASK, BASE_COLOR = fallback,
         DEPTH_STYLES = [(0, ''base''), (1, ''deep'')]\<rparr> 2 = fallback"
    (is "?general \<and> ?example \<and> ?fallback")
proof -
  from init_returns [OF assms] obtain h' self
    where i: "init h c parent ttl = Some (h', self)" by blast
  from init_fields [OF i]
  have st: "style_tokens (h' ! self) = resolve_style_tokens c (depth (h' ! self))"
    by blast
  from init_depth [OF assms i] obtain as
    where as: "ancestors h' (parent_container (h' ! self)) as"
      and d: "depth (h' ! self) =
              length (filter (\<lambda>a. CONTAINER_TYPE (cls (h' ! a)) = CONTAINER_TYPE c) as)"
    by blast
  have by_count: "depth (h' ! self) =
              length (filter (\<lambda>a. CONTAINER_TYPE (cls (h' ! a)) = CONTAINER_TYPE c) bs)
            \<and> style_tokens (h' ! self) =
              (case map_of (DEPTH_STYLES c)
                      (length (filter (\<lambda>a. CONTAINER_TYPE (cls (h' ! a)) = CONTAINER_TYPE c) bs))
               of Some style \<Rightarrow> style | None \<Rightarrow> BASE_COLOR c)"
    if "ancestors h' (parent_container (h' ! self)) bs" for bs
  proof -
    from ancestors_unique [OF as that] have bs: "bs = as" .
    show ?thesis
      unfolding bs st d [symmetric] by (simp add: resolve_style_tokens_def)
  qed
  have by_depth: "(\<forall>style. map_of (DEPTH_STYLES c) (depth (h' ! self)) = Some style
            \<longrightarrow> style_tokens (h' ! self) = style)
      \<and> (map_of (DEPTH_STYLES c) (depth (h' ! self)) = None
            \<longrightarrow> style_tokens (h' ! self) = BASE_COLOR c)"
    by (simp add: st resolve_style_tokens_def)
  have general: ?general
  proof (rule exI [of _ h'], rule exI [of _ self], intro conjI)
    show "init h c parent ttl = Some (h', self)" by (rule i)
    show "\<exists>as. ancestors h' (parent_container (h' ! self)) as"
      using as by (rule exI)
    show "\<forall>as. ancestors h' (parent_container (h' ! self)) as \<longrightarrow>
            depth (h' ! self) =
              length (filter (\<lambda>a. CONTAINER_TYPE (cls (h' ! a)) = CONTAINER_TYPE c) as)
            \<and> style_tokens (h' ! self) =
              (case map_of (DEPTH_STYLES c)
                      (length (filter (\<lambda>a. CONTAINER_TYPE (cls (h' ! a)) = CONTAINER_TYPE c) as))
               of Some style \<Rightarrow> style | None \<Rightarrow> BASE_COLOR c)"
      using by_count by blast
    show "\<forall>style. map_of (DEPTH_STYLES c) (depth (h' ! self)) = Some style
            \<longrightarrow> style_tokens (h' ! self) = style"
      using by_depth by (rule conjunct1)
    show "map_of (DEPTH_STYLES c) (depth (h' ! self)) = None
            \<longrightarrow> style_tokens (h' ! self) = BASE_COLOR c"
      using by_depth by (rule conjunct2)
  qed
  have example: ?example
    by (simp add: init_def compute_relative_depth_def build_structure_def
        resolve_style_tokens_def Let_def)
  have fallback: ?fallback
    by (simp add: resolve_style_tokens_def)
  show ?thesis
    by (intro conjI) (rule general, rule example, rule fallback)
qed

theorem init_style_tokens_witness:
  "wf_heap
     [\<lparr>cls = \<lparr>CONTAINER_TYPE = TASK, BASE_COLOR = ''#445566'',
              DEPTH_STYLES = [(0, ''base''), (1, ''deep'')]\<rparr>,
       parent_container = None, title = ''t0'', children_containers = [], depth = 0,
       style_tokens = ''base''\<rparr>]
   \<and> parent_ok
     [\<lparr>cls = \<lparr>CONTAINER_TYPE = TASK, BASE_COLOR = ''#445566'',
              DEPTH_STYLES = [(0, ''base''), (1, ''deep'')]\<rparr>,
       parent_container = None, title = ''t0'', children_containers = [], depth = 0,
       style_tokens = ''base''\<rparr>] (Container 0)
   \<and> (\<exists>h' self. init
     [\<lparr>cls = \<lparr>CONTAINER_TYPE = TASK, BASE_COLOR = ''#445566'',
              DEPTH_STYLES = [(0, ''base''), (1, ''deep'')]\<rparr>,
       parent_container = None, title = ''t0'', children_containers = [], depth = 0,
       style_tokens = ''base''\<rparr>]
       \<lparr>CONTAINER_TYPE = TASK, BASE_COLOR = ''#445566'',
              DEPTH_STYLES = [(0, ''base''), (1, ''deep'')]\<rparr>
       (Container 0) ''t1'' = Some (h', self)
       \<and> depth (h' ! self) = 1 \<and> style_tokens (h' ! self) = ''deep'')
   \<and> wf_heap
     [\<lparr>cls = \<lparr>CONTAINER_TYPE = TASK, BASE_COLOR = ''#445566'',
              DEPTH_STYLES = [(0, ''base''), (1, ''deep'')]\<rparr>,
       parent_container = None, title = ''t0'', children_containers = [1], depth = 0,
       style_tokens = ''base''\<rparr>,
      \<lparr>cls = \<lparr>CONTAINER_TYPE = TASK, BASE_COLOR = ''#445566'',
              DEPTH_STYLES = [(0, ''base''), (1, ''deep'')]\<rparr>,
       parent_container = Some 0, title = ''t1'', children_containers = [], depth = 1,
       style_tokens = ''deep''\<rparr>]
   \<and> parent_ok
     [\<lparr>cls = \<lparr>CONTAINER_TYPE = TASK, BASE_COLOR = ''#445566'',
              DEPTH_STYLES = [(0, ''base''), (1, ''deep'')]\<rparr>,
       parent_container = None, title = ''t0'', children_containers = [1], depth = 0,
       style_tokens = ''base''\<rparr>,
      \<lparr>cls = \<lparr>CONTAINER_TYPE = TASK, BASE_COLOR = ''#445566'',
              DEPTH_STYLES = [(0, ''base''), (1, ''deep'')]\<rparr>,
       parent_container = Some 0, title = ''t1'', children_containers = [], depth = 1,
       style_tokens = ''deep''\<rparr>] (Container 1)
   \<and> (\<exists>h' self. init
     [\<lparr>cls = \<lparr>CONTAINER_TYPE = TASK, BASE_COLOR = ''#445566'',
              DEPTH_STYLES = [(0, ''base''), (1, ''deep'')]\<rparr>,
       parent_container = None, title = ''t0'', children_containers = [1], depth = 0,
       style_tokens = ''base''\<rparr>,
      \<lparr>cls = \<lparr>CONTAINER_TYPE = TASK, BASE_COLOR = ''#445566'',
              DEPTH_STYLES = [(0, ''base''), (1, ''deep'')]\<rparr>,
       parent_container = Some 0, title = ''t1'', children_containers = [], depth = 1,
       style_tokens = ''deep''\<rparr>]
       \<lparr>CONTAINER_TYPE = TASK, BASE_COLOR = ''#445566'',
              DEPTH_STYLES = [(0, ''base''), (1, ''deep'')]\<rparr>
       (Container 1) ''t2'' = Some (h', self)
       \<and> depth (h' ! self) = 2 \<and> style_tokens (h' ! self) = ''#445566'')"
  using init_style_tokens
    [of "[\<lparr>cls = \<lparr>CONTAINER_TYPE = TASK, BASE_COLOR = ''#445566'',
              DEPTH_STYLES = [(0, ''base''), (1, ''deep'')]\<rparr>,
       parent_container = None, title = ''t0'', children_containers = [], depth = 0,
       style_tokens = ''base''\<rparr>]" "Container 0"
       "\<lparr>CONTAINER_TYPE = TASK, BASE_COLOR = ''#445566'',
              DEPTH_STYLES = [(0, ''base''), (1, ''deep'')]\<rparr>" "''t1''"]
    init_style_tokens
    [of "[\<lparr>cls = \<lparr>CONTAINER_TYPE = TASK, BASE_COLOR = ''#445566'',
              DEPTH_STYLES = [(0, ''base''), (1, ''deep'')]\<rparr>,
       parent_container = None, title = ''t0'', children_containers = [1], depth = 0,
       style_tokens = ''base''\<rparr>,
      \<lparr>cls = \<lparr>CONTAINER_TYPE = TASK, BASE_COLOR = ''#445566'',
              DEPTH_STYLES = [(0, ''base''), (1, ''deep'')]\<rparr>,
       parent_container = Some 0, title = ''t1'', children_containers = [], depth = 1,
       style_tokens = ''deep''\<rparr>]" "Container 1"
       "\<lparr>CONTAINER_TYPE = TASK, BASE_COLOR = ''#445566'',
              DEPTH_STYLES = [(0, ''base''), (1, ''deep'')]\<rparr>" "''t2''"]
  by (simp add: wf_heap_def parent_ok_def init_def compute_relative_depth_def
      build_structure_def resolve_style_tokens_def less_Suc_eq Let_def)

text \<open>
  C9. In a well-formed hierarchy construction returns, and what it changes in the state
  of the containers is this: the new container is added with its own fields set, its
  \<open>children_containers\<close> empty; when the parent is a container, the new container is
  appended to the \<open>children_containers\<close> of the parent, where it is the last element, and
  no other field of the parent changes; every other container is as it was. The state
  is the fields of the containers; the widgets of the UI toolkit are not part of it.
\<close>

theorem init_side_effects:
  assumes "wf_heap h" and "parent_ok h parent"
  shows "\<exists>h' self. init h c parent ttl = Some (h', self)
    \<and> self = length h \<and> length h' = Suc (length h)
    \<and> cls (h' ! self) = c
    \<and> parent_container (h' ! self) = (case parent of Container p \<Rightarrow> Some p | Frame \<Rightarrow> None)
    \<and> title (h' ! self) = ttl
    \<and> children_containers (h' ! self) = []
    \<and> (\<forall>p. parent = Container p \<longrightarrow>
          h' ! p = (h ! p)\<lparr>children_containers := children_containers (h ! p) @ [self]\<rparr>
          \<and> children_containers (h' ! p) \<noteq> []
          \<and> last (children_containers (h' ! p)) = self)
    \<and> (\<forall>i < length h. parent \<noteq> Container i \<longrightarrow> h' ! i = h ! i)"
proof -
  from init_returns [OF assms] obtain h' self
    where i: "init h c parent ttl = Some (h', self)" by blast
  from init_Some [OF i] obtain d where
    self: "self = length h"
    and h': "h' = build_structure (h @ [\<lparr>cls = c,
                  parent_container = (case parent of Container p \<Rightarrow> Some p | Frame \<Rightarrow> None),
                  title = ttl, children_containers = [], depth = d,
                  style_tokens = resolve_style_tokens c d\<rparr>]) (length h)"
    by blast
  have "self = length h \<and> length h' = Suc (length h)
    \<and> cls (h' ! self) = c
    \<and> parent_container (h' ! self) = (case parent of Container p \<Rightarrow> Some p | Frame \<Rightarrow> None)
    \<and> title (h' ! self) = ttl
    \<and> children_containers (h' ! self) = []
    \<and> (\<forall>p. parent = Container p \<longrightarrow>
          h' ! p = (h ! p)\<lparr>children_containers := children_containers (h ! p) @ [self]\<rparr>
          \<and> children_containers (h' ! p) \<noteq> []
          \<and> last (children_containers (h' ! p)) = self)
    \<and> (\<forall>i < length h. parent \<noteq> Container i \<longrightarrow> h' ! i = h ! i)"
  proof (cases parent)
    case Frame
    then show ?thesis
      by (simp add: h' self build_structure_def nth_append)
  next
    case (Container p)
    with assms(2) have p: "p < length h" by (simp add: parent_ok_def)
    then show ?thesis
      by (simp add: h' self build_structure_def Container nth_append nth_list_update)
  qed
  with i show ?thesis by blast
qed

theorem init_side_effects_witness:
  "wf_heap
     [\<lparr>cls = \<lparr>CONTAINER_TYPE = SECTION, BASE_COLOR = ''#112233'', DEPTH_STYLES = []\<rparr>,
       parent_container = None, title = ''s'', children_containers = [1], depth = 0,
       style_tokens = ''#112233''\<rparr>,
      \<lparr>cls = \<lparr>CONTAINER_TYPE = LOCATION, BASE_COLOR = ''#778899'', DEPTH_STYLES = []\<rparr>,
       parent_container = Some 0, title = ''l'', children_containers = [], depth = 0,
       style_tokens = ''#778899''\<rparr>]
   \<and> parent_ok
     [\<lparr>cls = \<lparr>CONTAINER_TYPE = SECTION, BASE_COLOR = ''#112233'', DEPTH_STYLES = []\<rparr>,
       parent_container = None, title = ''s'', children_containers = [1], depth = 0,
       style_tokens = ''#112233''\<rparr>,
      \<lparr>cls = \<lparr>CONTAINER_TYPE = LOCATION, BASE_COLOR = ''#778899'', DEPTH_STYLES = []\<rparr>,
       parent_container = Some 0, title = ''l'', children_containers = [], depth = 0,
       style_tokens = ''#778899''\<rparr>] (Container 0)
   \<and> init
     [\<lparr>cls = \<lparr>CONTAINER_TYPE = SECTION, BASE_COLOR = ''#112233'', DEPTH_STYLES = []\<rparr>,
       parent_container = None, title = ''s'', children_containers = [1], depth = 0,
       style_tokens = ''#112233''\<rparr>,
      \<lparr>cls = \<lparr>CONTAINER_TYPE = LOCATION, BASE_COLOR = ''#778899'', DEPTH_STYLES = []\<rparr>,
       parent_container = Some 0, title = ''l'', children_containers = [], depth = 0,
       style_tokens = ''#778899''\<rparr>]
     \<lparr>CONTAINER_TYPE = TASK, BASE_COLOR = ''#445566'', DEPTH_STYLES = []\<rparr>
     (Container 0) ''t''
   = Some
      ([\<lparr>cls = \<lparr>CONTAINER_TYPE = SECTION, BASE_COLOR = ''#112233'', DEPTH_STYLES = []\<rparr>,
         parent_container = None, title = ''s'', children_containers = [1, 2], depth = 0,
         style_tokens = ''#112233''\<rparr>,
        \<lparr>cls = \<lparr>CONTAINER_TYPE = LOCATION, BASE_COLOR = ''#778899'', DEPTH_STYLES = []\<rparr>,
         parent_container = Some 0, title = ''l'', children_containers = [], depth = 0,
         style_tokens = ''#778899''\<rparr>,
        \<lparr>cls = \<lparr>CONTAINER_TYPE = TASK, BASE_COLOR = ''#445566'', DEPTH_STYLES = []\<rparr>,
         parent_container = Some 0, title = ''t'', children_containers = [], depth = 0,
         style_tokens = ''#445566''\<rparr>], 2)"
  using init_side_effects
    [of "[\<lparr>cls = \<lparr>CONTAINER_TYPE = SECTION, BASE_COLOR = ''#112233'', DEPTH_STYLES = []\<rparr>,
       parent_container = None, title = ''s'', children_containers = [1], depth = 0,
       style_tokens = ''#112233''\<rparr>,
      \<lparr>cls = \<lparr>CONTAINER_TYPE = LOCATION, BASE_COLOR = ''#778899'', DEPTH_STYLES = []\<rparr>,
       parent_container = Some 0, title = ''l'', children_containers = [], depth = 0,
       style_tokens = ''#778899''\<rparr>]" "Container 0"
       "\<lparr>CONTAINER_TYPE = TASK, BASE_COLOR = ''#445566'', DEPTH_STYLES = []\<rparr>" "''t''"]
  by (simp add: wf_heap_def parent_ok_def init_def compute_relative_depth_def
      build_structure_def resolve_style_tokens_def less_Suc_eq Let_def)

end
